theory Spec2Isabelle
  imports Complex_Main "HOL-Library.Word"
begin

section \<open>Decimal amounts\<close>

text \<open>
  The banking service keeps money as Python \<^verbatim>\<open>decimal.Decimal\<close> values. A finite
  decimal is a signed integer coefficient and an exponent of ten: \<^verbatim>\<open>Decimal("700.00")\<close>
  has coefficient 70000 and exponent -2. Comparison is by numerical value; addition and
  subtraction take the smaller of the two exponents and are exact. That is what Python
  computes as long as the result has at most 28 significant digits (the default context
  precision); the balance column is declared \<^verbatim>\<open>Numeric(precision=10, scale=2)\<close>.
  The special values (NaN, infinities) and the negative zero are not represented.
\<close>

record Decimal =
  coefficient :: int
  exponent :: int

definition Decimal_0 :: Decimal where
  \<comment> \<open>\<^verbatim>\<open>Decimal("0")\<close>\<close>
  "Decimal_0 = \<lparr>coefficient = 0, exponent = 0\<rparr>"

definition Decimal_1000_00 :: Decimal where
  \<comment> \<open>\<^verbatim>\<open>Decimal("1000.00")\<close>, the default of \<^verbatim>\<open>BankAccountCreate.initial_balance\<close>\<close>
  "Decimal_1000_00 = \<lparr>coefficient = 100000, exponent = - 2\<rparr>"

definition dec_align :: "Decimal \<Rightarrow> Decimal \<Rightarrow> int \<times> int \<times> int" where
  \<comment> \<open>both coefficients written at the smaller exponent\<close>
  "dec_align a b =
     (let e = min (exponent a) (exponent b)
      in (coefficient a * 10 ^ nat (exponent a - e),
          coefficient b * 10 ^ nat (exponent b - e), e))"

definition dec_lt :: "Decimal \<Rightarrow> Decimal \<Rightarrow> bool" where
  \<comment> \<open>\<^verbatim>\<open>a < b\<close>\<close>
  "dec_lt a b = (case dec_align a b of (x, y, e) \<Rightarrow> x < y)"

definition dec_sub :: "Decimal \<Rightarrow> Decimal \<Rightarrow> Decimal" where
  \<comment> \<open>\<^verbatim>\<open>a - b\<close>\<close>
  "dec_sub a b = (case dec_align a b of (x, y, e) \<Rightarrow> \<lparr>coefficient = x - y, exponent = e\<rparr>)"

definition dec_add :: "Decimal \<Rightarrow> Decimal \<Rightarrow> Decimal" where
  \<comment> \<open>\<^verbatim>\<open>a + b\<close>\<close>
  "dec_add a b = (case dec_align a b of (x, y, e) \<Rightarrow> \<lparr>coefficient = x + y, exponent = e\<rparr>)"

definition dec_le :: "Decimal \<Rightarrow> Decimal \<Rightarrow> bool" where
  \<comment> \<open>\<^verbatim>\<open>a <= b\<close>\<close>
  "dec_le a b = (case dec_align a b of (x, y, e) \<Rightarrow> x \<le> y)"

definition dec_ge :: "Decimal \<Rightarrow> Decimal \<Rightarrow> bool" where
  \<comment> \<open>\<^verbatim>\<open>a >= b\<close>\<close>
  "dec_ge a b = (case dec_align a b of (x, y, e) \<Rightarrow> x \<ge> y)"

definition Decimal_2dp :: "int \<Rightarrow> Decimal" where
  \<comment> \<open>an amount with two fractional digits, given in cents: \<^verbatim>\<open>Decimal("700.00")\<close> is
      \<open>Decimal_2dp 70000\<close>\<close>
  "Decimal_2dp n = \<lparr>coefficient = n, exponent = - 2\<rparr>"


subsection \<open>Printing a decimal\<close>

text \<open>
  The messages interpolate decimals into an f-string, which prints them as \<^verbatim>\<open>str\<close>
  does: plain notation when the exponent is at most zero and the number is not too
  small, scientific notation with one digit before the point otherwise.
\<close>

definition digit_char :: "nat \<Rightarrow> char" where
  "digit_char n = ''0123456789'' ! n"

function digits10 :: "nat \<Rightarrow> string" where
  "digits10 n = (if n < 10 then [digit_char n] else digits10 (n div 10) @ [digit_char (n mod 10)])"
  by pat_completeness auto
termination
  by (relation "measure (\<lambda>n. n)") auto

declare digits10.simps [simp del]

definition signed_str :: "int \<Rightarrow> string" where
  \<comment> \<open>\<^verbatim>\<open>"%+d" % k\<close>\<close>
  "signed_str k = (if k < 0 then ''-'' else ''+'') @ digits10 (nat \<bar>k\<bar>)"

definition dec_str :: "Decimal \<Rightarrow> string" where
  "dec_str d =
     (let sign = (if coefficient d < 0 then ''-'' else '''');
          ds = digits10 (nat \<bar>coefficient d\<bar>);
          n = int (length ds);
          leftdigits = exponent d + n;
          dotplace = (if exponent d \<le> 0 \<and> leftdigits > - 6 then leftdigits else 1);
          intpart = (if dotplace \<le> 0 then ''0''
                     else if dotplace \<ge> n then ds @ replicate (nat (dotplace - n)) (CHR ''0'')
                     else take (nat dotplace) ds);
          fracpart = (if dotplace \<le> 0 then ''.'' @ replicate (nat (- dotplace)) (CHR ''0'') @ ds
                      else if dotplace \<ge> n then ''''
                      else ''.'' @ drop (nat dotplace) ds);
          exp = (if leftdigits = dotplace then '''' else ''E'' @ signed_str (leftdigits - dotplace))
      in sign @ intpart @ fracpart @ exp)"


section \<open>Identifiers\<close>

text \<open>
  \<^verbatim>\<open>uuid.uuid4()\<close> draws a 128-bit number; the value drawn is an argument of the
  model. \<^verbatim>\<open>.hex\<close> is its 32 lower-case hexadecimal digits, \<^verbatim>\<open>str\<close> groups them
  8-4-4-4-12 with hyphens.
\<close>

type_synonym uuid = "128 word"

definition hex_digit :: "nat \<Rightarrow> char" where
  "hex_digit n = ''0123456789abcdef'' ! n"

primrec hex_fixed :: "nat \<Rightarrow> nat \<Rightarrow> string" where
  "hex_fixed 0 n = []"
| "hex_fixed (Suc k) n = hex_fixed k (n div 16) @ [hex_digit (n mod 16)]"

definition uuid_hex :: "uuid \<Rightarrow> string" where
  "uuid_hex u = hex_fixed 32 (unat u)"

definition uuid_str :: "uuid \<Rightarrow> string" where
  "uuid_str u =
     (let h = uuid_hex u
      in take 8 h @ ''-'' @ take 4 (drop 8 h) @ ''-'' @ take 4 (drop 12 h) @ ''-''
         @ take 4 (drop 16 h) @ ''-'' @ drop 20 h)"

definition upper_char :: "char \<Rightarrow> char" where
  \<comment> \<open>an ASCII lower-case letter becomes its capital, any other character stays\<close>
  "upper_char c =
     (case map_of (zip ''abcdefghijklmnopqrstuvwxyz'' ''ABCDEFGHIJKLMNOPQRSTUVWXYZ'') c of
        None \<Rightarrow> c
      | Some u \<Rightarrow> u)"

definition str_upper :: "string \<Rightarrow> string" where
  \<comment> \<open>\<^verbatim>\<open>s.upper()\<close> on ASCII text\<close>
  "str_upper s = map upper_char s"

section \<open>The bank account table\<close>

text \<open>
  A \<^verbatim>\<open>BankAccount\<close> row carries the six columns that \<^verbatim>\<open>create_account\<close> sets. The two
  timestamp columns are filled in by column defaults from the clock; no function of
  \<^verbatim>\<open>crud.py\<close> reads or writes them, and they are left out. The primary key column
  \<^verbatim>\<open>id\<close> is written \<open>id'\<close>.
\<close>

record BankAccount =
  id' :: string
  user_id :: string
  account_number :: string
  balance :: Decimal
  currency :: string
  is_active :: bool

text \<open>
  The request body of account creation. \<^verbatim>\<open>initial_balance\<close> and \<^verbatim>\<open>currency\<close> have
  defaults, so the constructor takes them as options.
\<close>

datatype BankAccountCreate =
  BankAccountCreate (data_user_id: string) (initial_balance: Decimal) (data_currency: string)

definition new_BankAccountCreate ::
  "string \<Rightarrow> Decimal option \<Rightarrow> string option \<Rightarrow> BankAccountCreate" where
  "new_BankAccountCreate uid ib cur =
     BankAccountCreate uid
       (case ib of None \<Rightarrow> Decimal_1000_00 | Some b \<Rightarrow> b)
       (case cur of None \<Rightarrow> ''USD'' | Some c \<Rightarrow> c)"

datatype error = MultipleResultsFound | IntegrityError | InvalidRequestError

text \<open>
  The table is the list of its rows in insertion order, and every operation takes the
  table and returns it with its result. The table stores a decimal as it is written.
  Inserting a row that repeats the primary key \<^verbatim>\<open>id\<close> or one of the two columns declared
  \<^verbatim>\<open>unique=True\<close> raises \<^verbatim>\<open>IntegrityError\<close> at commit and stores nothing.
\<close>

type_synonym db = "BankAccount list"

definition commit_insert :: "db \<Rightarrow> BankAccount \<Rightarrow> error + db" where
  \<comment> \<open>\<^verbatim>\<open>db.add(account); await db.commit()\<close>\<close>
  "commit_insert db account =
     (if list_ex (\<lambda>r. id' r = id' account \<or> user_id r = user_id account
                       \<or> account_number r = account_number account) db
      then Inl IntegrityError
      else Inr (db @ [account]))"

definition commit_update :: "db \<Rightarrow> BankAccount \<Rightarrow> db" where
  \<comment> \<open>\<^verbatim>\<open>await db.commit()\<close> after \<^verbatim>\<open>account.balance\<close> was assigned: the balance of the
      row with the account's primary key is overwritten\<close>
  "commit_update db account =
     map (\<lambda>r. if id' r = id' account then r\<lparr>balance := balance account\<rparr> else r) db"

definition refresh :: "db \<Rightarrow> BankAccount \<Rightarrow> error + BankAccount" where
  \<comment> \<open>\<^verbatim>\<open>await db.refresh(account)\<close>: the row is read again by primary key\<close>
  "refresh db account =
     (case find (\<lambda>r. id' r = id' account) db of
        None \<Rightarrow> Inl InvalidRequestError
      | Some r \<Rightarrow> Inr r)"

fun scalar_one_or_none :: "'a list \<Rightarrow> error + 'a option" where
  "scalar_one_or_none [] = Inr None"
| "scalar_one_or_none [x] = Inr (Some x)"
| "scalar_one_or_none (x # y # zs) = Inl MultipleResultsFound"

section \<open>The operations of crud.py\<close>

definition create_account ::
  "db \<Rightarrow> uuid \<Rightarrow> uuid \<Rightarrow> BankAccountCreate \<Rightarrow> (error + BankAccount) \<times> db" where
  "create_account db u1 u2 account_data =
     (let account_id = uuid_str u1;
          number = ''ACC'' @ str_upper (take 10 (uuid_hex u2));
          account = \<lparr>id' = account_id,
                     user_id = data_user_id account_data,
                     account_number = number,
                     balance = initial_balance account_data,
                     currency = data_currency account_data,
                     is_active = True\<rparr>
      in case commit_insert db account of
           Inl e \<Rightarrow> (Inl e, db)
         | Inr db1 \<Rightarrow>
             (case refresh db1 account of
                Inl e \<Rightarrow> (Inl e, db1)
              | Inr account1 \<Rightarrow> (Inr account1, db1)))"

definition get_account_by_user_id ::
  "db \<Rightarrow> string \<Rightarrow> (error + BankAccount option) \<times> db" where
  "get_account_by_user_id db uid = (scalar_one_or_none (filter (\<lambda>r. user_id r = uid) db), db)"

definition get_account_by_id ::
  "db \<Rightarrow> string \<Rightarrow> (error + BankAccount option) \<times> db" where
  "get_account_by_id db account_id =
     (scalar_one_or_none (filter (\<lambda>r. id' r = account_id) db), db)"

definition check_balance ::
  "db \<Rightarrow> string \<Rightarrow> Decimal \<Rightarrow> (error + bool \<times> string) \<times> db" where
  "check_balance db uid amount =
     (case get_account_by_user_id db uid of
        (Inl e, db1) \<Rightarrow> (Inl e, db1)
      | (Inr None, db1) \<Rightarrow> (Inr (False, ''Account not found''), db1)
      | (Inr (Some account), db1) \<Rightarrow>
          if \<not> is_active account then (Inr (False, ''Account is inactive''), db1)
          else if dec_lt (balance account) amount
          then (Inr (False, ''Insufficient balance. Available: '' @ dec_str (balance account)
                            @ '', Required: '' @ dec_str amount), db1)
          else (Inr (True, ''Sufficient balance''), db1))"

definition debit_account ::
  "db \<Rightarrow> string \<Rightarrow> Decimal \<Rightarrow> (error + bool \<times> string \<times> Decimal) \<times> db" where
  "debit_account db uid amount =
     (case get_account_by_user_id db uid of
        (Inl e, db1) \<Rightarrow> (Inl e, db1)
      | (Inr None, db1) \<Rightarrow> (Inr (False, ''Account not found'', Decimal_0), db1)
      | (Inr (Some account), db1) \<Rightarrow>
          if \<not> is_active account
          then (Inr (False, ''Account is inactive'', balance account), db1)
          else if dec_lt (balance account) amount
          then (Inr (False, ''Insufficient balance. Available: '' @ dec_str (balance account)
                            @ '', Required: '' @ dec_str amount, balance account), db1)
          else
            (let account1 = account\<lparr>balance := dec_sub (balance account) amount\<rparr>;
                 db2 = commit_update db1 account1
             in case refresh db2 account1 of
                  Inl e \<Rightarrow> (Inl e, db2)
                | Inr account2 \<Rightarrow> (Inr (True, ''Transaction successful'', balance account2), db2)))"

definition credit_account ::
  "db \<Rightarrow> string \<Rightarrow> Decimal \<Rightarrow> (error + bool \<times> string \<times> Decimal) \<times> db" where
  "credit_account db uid amount =
     (case get_account_by_user_id db uid of
        (Inl e, db1) \<Rightarrow> (Inl e, db1)
      | (Inr None, db1) \<Rightarrow> (Inr (False, ''Account not found'', Decimal_0), db1)
      | (Inr (Some account), db1) \<Rightarrow>
          if \<not> is_active account
          then (Inr (False, ''Account is inactive'', balance account), db1)
          else
            (let account1 = account\<lparr>balance := dec_add (balance account) amount\<rparr>;
                 db2 = commit_update db1 account1
             in case refresh db2 account1 of
                  Inl e \<Rightarrow> (Inl e, db2)
                | Inr account2 \<Rightarrow> (Inr (True, ''Transaction successful'', balance account2), db2)))"

section \<open>Sequences of operations on one account\<close>





text \<open>An account row of user \<^verbatim>\<open>u1\<close> with a given balance and activity flag, for examples.\<close>

definition account_u1 :: "Decimal \<Rightarrow> bool \<Rightarrow> BankAccount" where
  "account_u1 b active =
     \<lparr>id' = ''7c9e6679-7425-40de-944b-e07fc1f90ae7'', user_id = ''u1'',
      account_number = ''ACC3F2504E04F'', balance = b, currency = ''USD'',
      is_active = active\<rparr>"

text \<open>
  The scenario of the specification: an account is created for user \<^verbatim>\<open>u1\<close> with
  initial balance 1000.00 in an empty table, then 300.00 is debited, then 800.00 is
  debited, then 50.00 is credited, each call on the table the call before left.
\<close>

definition scenario_account :: "uuid \<Rightarrow> uuid \<Rightarrow> Decimal \<Rightarrow> BankAccount" where
  "scenario_account u1 u2 b =
     \<lparr>id' = uuid_str u1, user_id = ''u1'',
      account_number = ''ACC'' @ str_upper (take 10 (uuid_hex u2)), balance = b,
      currency = ''USD'', is_active = True\<rparr>"

definition scenario_create :: "uuid \<Rightarrow> uuid \<Rightarrow> (error + BankAccount) \<times> db" where
  "scenario_create u1 u2 =
     create_account [] u1 u2 (new_BankAccountCreate ''u1'' (Some (Decimal_2dp 100000)) None)"

definition scenario_debit_300 :: "uuid \<Rightarrow> uuid \<Rightarrow> (error + bool \<times> string \<times> Decimal) \<times> db" where
  "scenario_debit_300 u1 u2 =
     debit_account (snd (scenario_create u1 u2)) ''u1'' (Decimal_2dp 30000)"

definition scenario_debit_800 :: "uuid \<Rightarrow> uuid \<Rightarrow> (error + bool \<times> string \<times> Decimal) \<times> db" where
  "scenario_debit_800 u1 u2 =
     debit_account (snd (scenario_debit_300 u1 u2)) ''u1'' (Decimal_2dp 80000)"

definition scenario_credit_50 :: "uuid \<Rightarrow> uuid \<Rightarrow> (error + bool \<times> string \<times> Decimal) \<times> db" where
  "scenario_credit_50 u1 u2 =
     credit_account (snd (scenario_debit_800 u1 u2)) ''u1'' (Decimal_2dp 5000)"

section \<open>Decimal arithmetic\<close>









section \<open>Reading and writing the table\<close>

lemma digits10_small: "n < 10 \<Longrightarrow> digits10 n = [digit_char n]"
  by (simp add: digits10.simps)

lemma digits10_large: "\<not> n < 10 \<Longrightarrow> digits10 n = digits10 (n div 10) @ [digit_char (n mod 10)]"
  by (subst digits10.simps) simp

lemmas dec_str_eval = dec_str_def signed_str_def digits10_small digits10_large digit_char_def Let_def

lemma scalar_one_or_none_Some:
  "scalar_one_or_none xs = Inr (Some x) \<longleftrightarrow> xs = [x]"
  by (cases xs rule: scalar_one_or_none.cases) auto

lemma scalar_one_or_none_None:
  "scalar_one_or_none xs = Inr None \<longleftrightarrow> xs = []"
  by (cases xs rule: scalar_one_or_none.cases) auto

lemma get_account_by_user_id_Some:
  "get_account_by_user_id db uid = (Inr (Some a), db1) \<longleftrightarrow>
     filter (\<lambda>r. user_id r = uid) db = [a] \<and> db1 = db"
  by (auto simp: get_account_by_user_id_def scalar_one_or_none_Some)

lemma get_account_by_user_id_None:
  "get_account_by_user_id db uid = (Inr None, db1) \<longleftrightarrow>
     filter (\<lambda>r. user_id r = uid) db = [] \<and> db1 = db"
  by (auto simp: get_account_by_user_id_def scalar_one_or_none_None)

lemma filter_singleton_mem: "filter P xs = [a] \<Longrightarrow> a \<in> set xs \<and> P a"
proof -
  assume "filter P xs = [a]"
  then have "a \<in> set (filter P xs)" by simp
  then show ?thesis by simp
qed

lemma find_commit_update:
  "find (\<lambda>r. id' r = k) (commit_update db a) =
     map_option (\<lambda>r. if id' r = id' a then r\<lparr>balance := balance a\<rparr> else r)
       (find (\<lambda>r. id' r = k) db)"
  by (induction db) (auto simp: commit_update_def)

lemma find_mem_Some: "a \<in> set db \<Longrightarrow> \<exists>r. find (\<lambda>r. id' r = id' a) db = Some r \<and> id' r = id' a"
  by (induction db) auto

lemma refresh_commit_update:
  assumes "a \<in> set db" and "id' a1 = id' a"
  shows "\<exists>r. refresh (commit_update db a1) a1 = Inr r \<and> balance r = balance a1 \<and> id' r = id' a"
proof -
  obtain r where r: "find (\<lambda>r. id' r = id' a) db = Some r" "id' r = id' a"
    using find_mem_Some [OF assms(1)] by blast
  then show ?thesis
    using assms(2) by (simp add: refresh_def find_commit_update)
qed



section \<open>What debit and credit return\<close>

lemma get_account_by_user_id_db: "snd (get_account_by_user_id db uid) = db"
  by (simp add: get_account_by_user_id_def)

lemma debit_account_found:
  assumes "get_account_by_user_id db uid = (Inr (Some a), db1)"
  shows "debit_account db uid amount =
    (if \<not> is_active a then (Inr (False, ''Account is inactive'', balance a), db)
     else if dec_lt (balance a) amount
     then (Inr (False, ''Insufficient balance. Available: '' @ dec_str (balance a)
                       @ '', Required: '' @ dec_str amount, balance a), db)
     else (Inr (True, ''Transaction successful'', dec_sub (balance a) amount),
           commit_update db (a\<lparr>balance := dec_sub (balance a) amount\<rparr>)))"
proof -
  have db1: "db1 = db" and mem: "a \<in> set db"
    using assms filter_singleton_mem [of "\<lambda>r. user_id r = uid" db a]
    by (auto simp: get_account_by_user_id_Some)
  obtain r where "refresh (commit_update db (a\<lparr>balance := dec_sub (balance a) amount\<rparr>))
                    (a\<lparr>balance := dec_sub (balance a) amount\<rparr>) = Inr r"
    and "balance r = dec_sub (balance a) amount"
    using refresh_commit_update [OF mem, of "a\<lparr>balance := dec_sub (balance a) amount\<rparr>"]
    by auto
  then show ?thesis
    using assms by (simp add: debit_account_def db1 Let_def)
qed

lemma debit_account_missing:
  assumes "get_account_by_user_id db uid = (Inr None, db1)"
  shows "debit_account db uid amount = (Inr (False, ''Account not found'', Decimal_0), db)"
  using assms get_account_by_user_id_db [of db uid] by (simp add: debit_account_def)

lemma debit_account_raises:
  assumes "get_account_by_user_id db uid = (Inl e, db1)"
  shows "debit_account db uid amount = (Inl e, db)"
  using assms get_account_by_user_id_db [of db uid] by (simp add: debit_account_def)

lemma credit_account_found:
  assumes "get_account_by_user_id db uid = (Inr (Some a), db1)"
  shows "credit_account db uid amount =
    (if \<not> is_active a then (Inr (False, ''Account is inactive'', balance a), db)
     else (Inr (True, ''Transaction successful'', dec_add (balance a) amount),
           commit_update db (a\<lparr>balance := dec_add (balance a) amount\<rparr>)))"
proof -
  have db1: "db1 = db" and mem: "a \<in> set db"
    using assms filter_singleton_mem [of "\<lambda>r. user_id r = uid" db a]
    by (auto simp: get_account_by_user_id_Some)
  obtain r where "refresh (commit_update db (a\<lparr>balance := dec_add (balance a) amount\<rparr>))
                    (a\<lparr>balance := dec_add (balance a) amount\<rparr>) = Inr r"
    and "balance r = dec_add (balance a) amount"
    using refresh_commit_update [OF mem, of "a\<lparr>balance := dec_add (balance a) amount\<rparr>"]
    by auto
  then show ?thesis
    using assms by (simp add: credit_account_def db1 Let_def)
qed

lemma credit_account_missing:
  assumes "get_account_by_user_id db uid = (Inr None, db1)"
  shows "credit_account db uid amount = (Inr (False, ''Account not found'', Decimal_0), db)"
  using assms get_account_by_user_id_db [of db uid] by (simp add: credit_account_def)

lemma credit_account_raises:
  assumes "get_account_by_user_id db uid = (Inl e, db1)"
  shows "credit_account db uid amount = (Inl e, db)"
  using assms get_account_by_user_id_db [of db uid] by (simp add: credit_account_def)

lemma get_account_cases:
  obtains (raises) e where "get_account_by_user_id db uid = (Inl e, db)"
  | (missing) "get_account_by_user_id db uid = (Inr None, db)"
  | (found) a where "get_account_by_user_id db uid = (Inr (Some a), db)"
proof (cases "scalar_one_or_none (filter (\<lambda>r. user_id r = uid) db)")
  case (Inl e)
  then show ?thesis using raises by (simp add: get_account_by_user_id_def)
next
  case (Inr res)
  then show ?thesis using missing found by (cases res) (simp_all add: get_account_by_user_id_def)
qed

section \<open>Comparisons and evaluation on examples\<close>




lemmas dec_eval = Decimal_0_def Decimal_2dp_def Decimal_1000_00_def dec_align_def dec_lt_def
  dec_le_def dec_ge_def dec_sub_def dec_add_def Let_def

lemmas db_eval = account_u1_def get_account_by_user_id_def commit_update_def refresh_def

lemma dec_str_700: "dec_str (Decimal_2dp 70000) = ''700.00''"
  by (simp add: dec_str_eval dec_eval)

lemma dec_str_800: "dec_str (Decimal_2dp 80000) = ''800.00''"
  by (simp add: dec_str_eval dec_eval)

lemma check_balance_found:
  assumes "get_account_by_user_id db uid = (Inr (Some a), db1)"
  shows "check_balance db uid amount =
    (if \<not> is_active a then (Inr (False, ''Account is inactive''), db)
     else if dec_lt (balance a) amount
     then (Inr (False, ''Insufficient balance. Available: '' @ dec_str (balance a)
                       @ '', Required: '' @ dec_str amount), db)
     else (Inr (True, ''Sufficient balance''), db))"
  using assms get_account_by_user_id_db [of db uid] by (simp add: check_balance_def)

lemma check_balance_missing:
  assumes "get_account_by_user_id db uid = (Inr None, db1)"
  shows "check_balance db uid amount = (Inr (False, ''Account not found''), db)"
  using assms get_account_by_user_id_db [of db uid] by (simp add: check_balance_def)

lemma failed_debit_unchanged:
  assumes "debit_account db uid amount = (Inr (False, m, b), db1)"
  shows "db1 = db \<and> (get_account_by_user_id db uid = (Inr None, db) \<and> b = Decimal_0
                    \<or> (\<exists>a. get_account_by_user_id db uid = (Inr (Some a), db) \<and> b = balance a))"
proof (cases rule: get_account_cases [of db uid])
  case (raises e)
  then show ?thesis using assms by (simp add: debit_account_raises)
next
  case missing
  then show ?thesis using assms by (simp add: debit_account_missing)
next
  case (found a)
  then show ?thesis
    using assms debit_account_found [OF found, of amount] by (auto split: if_splits)
qed

lemma failed_credit_unchanged:
  assumes "credit_account db uid amount = (Inr (False, m, b), db1)"
  shows "db1 = db \<and> (get_account_by_user_id db uid = (Inr None, db) \<and> b = Decimal_0
                    \<or> (\<exists>a. get_account_by_user_id db uid = (Inr (Some a), db) \<and> b = balance a))"
proof (cases rule: get_account_cases [of db uid])
  case (raises e)
  then show ?thesis using assms by (simp add: credit_account_raises)
next
  case missing
  then show ?thesis using assms by (simp add: credit_account_missing)
next
  case (found a)
  then show ?thesis
    using assms credit_account_found [OF found, of amount] by (auto split: if_splits)
qed





lemma single_get:
  "user_id a = uid \<Longrightarrow> get_account_by_user_id [a] uid = (Inr (Some a), [a])"
  by (simp add: get_account_by_user_id_def)

lemma single_debit:
  assumes "user_id a = uid" and "is_active a" and "\<not> dec_lt (balance a) amount"
  shows "debit_account [a] uid amount =
           (Inr (True, ''Transaction successful'', dec_sub (balance a) amount),
            [a\<lparr>balance := dec_sub (balance a) amount\<rparr>])"
  using assms debit_account_found [OF single_get [OF assms(1)], of amount]
  by (simp add: commit_update_def)

lemma single_debit_insufficient:
  assumes "user_id a = uid" and "is_active a" and "dec_lt (balance a) amount"
  shows "debit_account [a] uid amount =
           (Inr (False, ''Insufficient balance. Available: '' @ dec_str (balance a)
                        @ '', Required: '' @ dec_str amount, balance a), [a])"
  using assms debit_account_found [OF single_get [OF assms(1)], of amount]
  by simp

lemma single_credit:
  assumes "user_id a = uid" and "is_active a"
  shows "credit_account [a] uid amount =
           (Inr (True, ''Transaction successful'', dec_add (balance a) amount),
            [a\<lparr>balance := dec_add (balance a) amount\<rparr>])"
  using assms credit_account_found [OF single_get [OF assms(1)], of amount]
  by (simp add: commit_update_def)








lemma find_append_new:
  assumes "\<not> list_ex P xs" and "P y"
  shows "find P (xs @ [y]) = Some y"
  using assms by (induction xs) auto

lemma create_account_fresh:
  assumes "\<not> list_ex (\<lambda>r. id' r = uuid_str u1 \<or> user_id r = data_user_id d
                         \<or> account_number r = ''ACC'' @ str_upper (take 10 (uuid_hex u2))) db"
  shows "create_account db u1 u2 d =
     (Inr \<lparr>id' = uuid_str u1, user_id = data_user_id d,
           account_number = ''ACC'' @ str_upper (take 10 (uuid_hex u2)),
           balance = initial_balance d, currency = data_currency d, is_active = True\<rparr>,
      db @ [\<lparr>id' = uuid_str u1, user_id = data_user_id d,
        account_number = ''ACC'' @ str_upper (take 10 (uuid_hex u2)),
        balance = initial_balance d, currency = data_currency d, is_active = True\<rparr>])"
proof -
  let ?a = "\<lparr>id' = uuid_str u1, user_id = data_user_id d,
           account_number = ''ACC'' @ str_upper (take 10 (uuid_hex u2)),
           balance = initial_balance d, currency = data_currency d, is_active = True\<rparr>"
  have "\<not> list_ex (\<lambda>r. id' r = id' ?a) db"
    using assms by (auto simp: list_ex_iff)
  then have "find (\<lambda>r. id' r = id' ?a) (db @ [?a]) = Some ?a"
    by (rule find_append_new) simp
  then show ?thesis
    using assms by (simp add: create_account_def commit_insert_def refresh_def Let_def)
qed

lemma create_account_conflict:
  assumes "list_ex (\<lambda>r. id' r = uuid_str u1 \<or> user_id r = data_user_id d
                         \<or> account_number r = ''ACC'' @ str_upper (take 10 (uuid_hex u2))) db"
  shows "create_account db u1 u2 d = (Inl IntegrityError, db)"
  using assms by (simp add: create_account_def commit_insert_def Let_def)





section \<open>The properties of the specification\<close>



text \<open>
  C8. \<^verbatim>\<open>get_account_by_user_id\<close> leaves the table as it found it, and a second call
  for the same user right after the first returns the same account, field by field.
\<close>

theorem get_account_by_user_id_pure:
  "snd (get_account_by_user_id db uid) = db
   \<and> get_account_by_user_id (snd (get_account_by_user_id db uid)) uid =
       get_account_by_user_id db uid"
  by (simp add: get_account_by_user_id_def)

text \<open>
  C3, as the specification states it, fails: for an active account with balance 700.00
  and a required amount of 800.00 the specification gives the reason
  \<^verbatim>\<open>"Insufficient balance: available=700.00, required=800.00"\<close>, and \<^verbatim>\<open>check_balance\<close>
  returns \<^verbatim>\<open>"Insufficient balance. Available: 700.00, Required: 800.00"\<close>.
\<close>

theorem check_balance_message_counterexample:
  "check_balance [account_u1 (Decimal_2dp 70000) True] ''u1'' (Decimal_2dp 80000) =
     (Inr (False, ''Insufficient balance. Available: 700.00, Required: 800.00''),
      [account_u1 (Decimal_2dp 70000) True])
   \<and> fst (check_balance [account_u1 (Decimal_2dp 70000) True] ''u1'' (Decimal_2dp 80000)) \<noteq>
       Inr (False, ''Insufficient balance: available=700.00, required=800.00'')"
proof -
  let ?a = "account_u1 (Decimal_2dp 70000) True"
  have g: "get_account_by_user_id [?a] ''u1'' = (Inr (Some ?a), [?a])"
    by (simp add: db_eval)
  have a: "is_active ?a" and b: "balance ?a = Decimal_2dp 70000"
    by (simp_all add: account_u1_def)
  have l: "dec_lt (Decimal_2dp 70000) (Decimal_2dp 80000)"
    by (simp add: dec_eval)
  have "check_balance [?a] ''u1'' (Decimal_2dp 80000) =
     (Inr (False, ''Insufficient balance. Available: '' @ ''700.00''
                       @ '', Required: '' @ ''800.00''), [?a])"
    using check_balance_found [OF g, of "Decimal_2dp 80000"] a l
    by (simp add: b dec_str_700 dec_str_800)
  then show ?thesis by simp
qed

text \<open>
  C3, amended. \<^verbatim>\<open>check_balance\<close> checks existence, then activity, then sufficiency,
  and the first check that fails decides the answer: \<^verbatim>\<open>(False, "Account not found")\<close>
  when the user has no account; \<^verbatim>\<open>(False, "Account is inactive")\<close> when the account
  is inactive, whatever its balance;
  \<^verbatim>\<open>(False, "Insufficient balance. Available: <balance>, Required: <amount>")\<close> when the
  account is active and its balance is less than the amount; and
  \<^verbatim>\<open>(True, "Sufficient balance")\<close> otherwise. The table is unchanged.
\<close>

theorem check_balance_in_order:
  "(get_account_by_user_id db uid = (Inr None, db) \<longrightarrow>
      check_balance db uid amount = (Inr (False, ''Account not found''), db))
   \<and> (\<forall>a. get_account_by_user_id db uid = (Inr (Some a), db) \<and> \<not> is_active a \<longrightarrow>
      check_balance db uid amount = (Inr (False, ''Account is inactive''), db))
   \<and> (\<forall>a. get_account_by_user_id db uid = (Inr (Some a), db) \<and> is_active a
          \<and> dec_lt (balance a) amount \<longrightarrow>
      check_balance db uid amount =
        (Inr (False, ''Insufficient balance. Available: '' @ dec_str (balance a)
                     @ '', Required: '' @ dec_str amount), db))
   \<and> (\<forall>a. get_account_by_user_id db uid = (Inr (Some a), db) \<and> is_active a
          \<and> \<not> dec_lt (balance a) amount \<longrightarrow>
      check_balance db uid amount = (Inr (True, ''Sufficient balance''), db))"
  by (auto simp: check_balance_found check_balance_missing)

theorem check_balance_in_order_witness:
  "check_balance [] ''u1'' (Decimal_2dp 80000) = (Inr (False, ''Account not found''), [])
   \<and> check_balance [account_u1 (Decimal_2dp 70000) False] ''u1'' (Decimal_2dp 80000) =
       (Inr (False, ''Account is inactive''), [account_u1 (Decimal_2dp 70000) False])
   \<and> check_balance [account_u1 (Decimal_2dp 70000) True] ''u1'' (Decimal_2dp 80000) =
       (Inr (False, ''Insufficient balance. Available: 700.00, Required: 800.00''),
        [account_u1 (Decimal_2dp 70000) True])
   \<and> check_balance [account_u1 (Decimal_2dp 80000) True] ''u1'' (Decimal_2dp 80000) =
       (Inr (True, ''Sufficient balance''), [account_u1 (Decimal_2dp 80000) True])"
proof -
  let ?i = "account_u1 (Decimal_2dp 70000) False"
  let ?a = "account_u1 (Decimal_2dp 70000) True"
  let ?s = "account_u1 (Decimal_2dp 80000) True"
  have h1: "get_account_by_user_id [] ''u1'' = (Inr None, [])"
    by (simp add: db_eval)
  have h2: "get_account_by_user_id [?i] ''u1'' = (Inr (Some ?i), [?i]) \<and> \<not> is_active ?i"
    by (simp add: db_eval)
  have h3: "get_account_by_user_id [?a] ''u1'' = (Inr (Some ?a), [?a]) \<and> is_active ?a
            \<and> dec_lt (balance ?a) (Decimal_2dp 80000)"
    by (simp add: db_eval dec_eval)
  have h4: "get_account_by_user_id [?s] ''u1'' = (Inr (Some ?s), [?s]) \<and> is_active ?s
            \<and> \<not> dec_lt (balance ?s) (Decimal_2dp 80000)"
    by (simp add: db_eval dec_eval)
  have b: "balance ?a = Decimal_2dp 70000"
    by (simp add: account_u1_def)
  from check_balance_in_order [of "[]" "''u1''" "Decimal_2dp 80000"] h1
  have 1: "check_balance [] ''u1'' (Decimal_2dp 80000) = (Inr (False, ''Account not found''), [])"
    by blast
  from check_balance_in_order [of "[?i]" "''u1''" "Decimal_2dp 80000"] h2
  have 2: "check_balance [?i] ''u1'' (Decimal_2dp 80000) =
           (Inr (False, ''Account is inactive''), [?i])"
    by blast
  from check_balance_in_order [of "[?a]" "''u1''" "Decimal_2dp 80000"] h3
  have "check_balance [?a] ''u1'' (Decimal_2dp 80000) =
        (Inr (False, ''Insufficient balance. Available: '' @ dec_str (balance ?a)
                     @ '', Required: '' @ dec_str (Decimal_2dp 80000)), [?a])"
    by blast
  then have 3: "check_balance [?a] ''u1'' (Decimal_2dp 80000) =
        (Inr (False, ''Insufficient balance. Available: 700.00, Required: 800.00''), [?a])"
    by (simp add: b dec_str_700 dec_str_800)
  from check_balance_in_order [of "[?s]" "''u1''" "Decimal_2dp 80000"] h4
  have 4: "check_balance [?s] ''u1'' (Decimal_2dp 80000) =
           (Inr (True, ''Sufficient balance''), [?s])"
    by blast
  from 1 2 3 4 show ?thesis by blast
qed

text \<open>
  C4. A debit or credit that fails returns \<^verbatim>\<open>False\<close> with the balance
  \<^verbatim>\<open>Decimal("0")\<close> when the user has no account and with the stored balance otherwise,
  and leaves the table as it was. The failures are: no account, an inactive account, and,
  for a debit, a balance below the amount. For an inactive account both operations fail
  for every amount, so for every positive one.
\<close>

theorem failed_debit_credit_unchanged:
  "(get_account_by_user_id db uid = (Inr None, db) \<longrightarrow>
      debit_account db uid amount = (Inr (False, ''Account not found'', Decimal_0), db)
      \<and> credit_account db uid amount = (Inr (False, ''Account not found'', Decimal_0), db))
   \<and> (\<forall>a. get_account_by_user_id db uid = (Inr (Some a), db) \<and> \<not> is_active a \<longrightarrow>
      debit_account db uid amount = (Inr (False, ''Account is inactive'', balance a), db)
      \<and> credit_account db uid amount = (Inr (False, ''Account is inactive'', balance a), db))
   \<and> (\<forall>a. get_account_by_user_id db uid = (Inr (Some a), db) \<and> is_active a
          \<and> dec_lt (balance a) amount \<longrightarrow>
      debit_account db uid amount =
        (Inr (False, ''Insufficient balance. Available: '' @ dec_str (balance a)
                     @ '', Required: '' @ dec_str amount, balance a), db))
   \<and> (\<forall>m b db1. debit_account db uid amount = (Inr (False, m, b), db1)
          \<or> credit_account db uid amount = (Inr (False, m, b), db1) \<longrightarrow>
      db1 = db
      \<and> (get_account_by_user_id db uid = (Inr None, db) \<and> b = Decimal_0
         \<or> (\<exists>a. get_account_by_user_id db uid = (Inr (Some a), db) \<and> b = balance a)))"
proof (intro conjI allI impI)
  assume "get_account_by_user_id db uid = (Inr None, db)"
  then show "debit_account db uid amount = (Inr (False, ''Account not found'', Decimal_0), db)"
    and "credit_account db uid amount = (Inr (False, ''Account not found'', Decimal_0), db)"
    by (simp_all add: debit_account_missing credit_account_missing)
next
  fix a
  assume "get_account_by_user_id db uid = (Inr (Some a), db) \<and> \<not> is_active a"
  then show "debit_account db uid amount = (Inr (False, ''Account is inactive'', balance a), db)"
    and "credit_account db uid amount = (Inr (False, ''Account is inactive'', balance a), db)"
    by (simp_all add: debit_account_found credit_account_found)
next
  fix a
  assume "get_account_by_user_id db uid = (Inr (Some a), db) \<and> is_active a
          \<and> dec_lt (balance a) amount"
  then show "debit_account db uid amount =
        (Inr (False, ''Insufficient balance. Available: '' @ dec_str (balance a)
                     @ '', Required: '' @ dec_str amount, balance a), db)"
    by (simp add: debit_account_found)
next
  fix m b db1
  assume f: "debit_account db uid amount = (Inr (False, m, b), db1)
             \<or> credit_account db uid amount = (Inr (False, m, b), db1)"
  then have r: "db1 = db \<and> (get_account_by_user_id db uid = (Inr None, db) \<and> b = Decimal_0
                    \<or> (\<exists>a. get_account_by_user_id db uid = (Inr (Some a), db) \<and> b = balance a))"
    using failed_debit_unchanged failed_credit_unchanged by blast
  from r show "db1 = db" by simp
  from r show "get_account_by_user_id db uid = (Inr None, db) \<and> b = Decimal_0
         \<or> (\<exists>a. get_account_by_user_id db uid = (Inr (Some a), db) \<and> b = balance a)"
    by simp
qed

theorem failed_debit_credit_unchanged_witness:
  "debit_account [] ''u1'' (Decimal_2dp 5000) = (Inr (False, ''Account not found'', Decimal_0), [])
   \<and> credit_account [] ''u1'' (Decimal_2dp 5000) =
       (Inr (False, ''Account not found'', Decimal_0), [])
   \<and> debit_account [account_u1 (Decimal_2dp 70000) False] ''u1'' (Decimal_2dp 5000) =
       (Inr (False, ''Account is inactive'', Decimal_2dp 70000),
        [account_u1 (Decimal_2dp 70000) False])
   \<and> credit_account [account_u1 (Decimal_2dp 70000) False] ''u1'' (Decimal_2dp 5000) =
       (Inr (False, ''Account is inactive'', Decimal_2dp 70000),
        [account_u1 (Decimal_2dp 70000) False])
   \<and> debit_account [account_u1 (Decimal_2dp 70000) True] ''u1'' (Decimal_2dp 80000) =
       (Inr (False, ''Insufficient balance. Available: 700.00, Required: 800.00'',
             Decimal_2dp 70000),
        [account_u1 (Decimal_2dp 70000) True])
   \<and> (get_account_by_user_id [account_u1 (Decimal_2dp 70000) True] ''u1'' =
         (Inr None, [account_u1 (Decimal_2dp 70000) True]) \<and> Decimal_2dp 70000 = Decimal_0
       \<or> (\<exists>a. get_account_by_user_id [account_u1 (Decimal_2dp 70000) True] ''u1'' =
                 (Inr (Some a), [account_u1 (Decimal_2dp 70000) True])
               \<and> Decimal_2dp 70000 = balance a))"
proof -
  let ?i = "account_u1 (Decimal_2dp 70000) False"
  let ?a = "account_u1 (Decimal_2dp 70000) True"
  have h1: "get_account_by_user_id [] ''u1'' = (Inr None, [])"
    by (simp add: db_eval)
  have h2: "get_account_by_user_id [?i] ''u1'' = (Inr (Some ?i), [?i]) \<and> \<not> is_active ?i"
    by (simp add: db_eval)
  have h3: "get_account_by_user_id [?a] ''u1'' = (Inr (Some ?a), [?a]) \<and> is_active ?a
            \<and> dec_lt (balance ?a) (Decimal_2dp 80000)"
    by (simp add: db_eval dec_eval)
  have bi: "balance ?i = Decimal_2dp 70000" and ba: "balance ?a = Decimal_2dp 70000"
    by (simp_all add: account_u1_def)
  from failed_debit_credit_unchanged [of "[]" "''u1''" "Decimal_2dp 5000"] h1
  have 1: "debit_account [] ''u1'' (Decimal_2dp 5000) =
             (Inr (False, ''Account not found'', Decimal_0), [])
           \<and> credit_account [] ''u1'' (Decimal_2dp 5000) =
             (Inr (False, ''Account not found'', Decimal_0), [])"
    by blast
  from failed_debit_credit_unchanged [of "[?i]" "''u1''" "Decimal_2dp 5000"] h2
  have "debit_account [?i] ''u1'' (Decimal_2dp 5000) =
          (Inr (False, ''Account is inactive'', balance ?i), [?i])
        \<and> credit_account [?i] ''u1'' (Decimal_2dp 5000) =
          (Inr (False, ''Account is inactive'', balance ?i), [?i])"
    by blast
  then have 2: "debit_account [?i] ''u1'' (Decimal_2dp 5000) =
          (Inr (False, ''Account is inactive'', Decimal_2dp 70000), [?i])
        \<and> credit_account [?i] ''u1'' (Decimal_2dp 5000) =
          (Inr (False, ''Account is inactive'', Decimal_2dp 70000), [?i])"
    by (simp only: bi)
  from failed_debit_credit_unchanged [of "[?a]" "''u1''" "Decimal_2dp 80000"] h3
  have "debit_account [?a] ''u1'' (Decimal_2dp 80000) =
        (Inr (False, ''Insufficient balance. Available: '' @ dec_str (balance ?a)
                     @ '', Required: '' @ dec_str (Decimal_2dp 80000), balance ?a), [?a])"
    by blast
  then have 3: "debit_account [?a] ''u1'' (Decimal_2dp 80000) =
       (Inr (False, ''Insufficient balance. Available: 700.00, Required: 800.00'',
             Decimal_2dp 70000), [?a])"
    by (simp add: ba dec_str_700 dec_str_800)
  from failed_debit_credit_unchanged [of "[?a]" "''u1''" "Decimal_2dp 80000"] 3
  have 4: "get_account_by_user_id [?a] ''u1'' = (Inr None, [?a]) \<and> Decimal_2dp 70000 = Decimal_0
       \<or> (\<exists>a. get_account_by_user_id [?a] ''u1'' = (Inr (Some a), [?a])
               \<and> Decimal_2dp 70000 = balance a)"
    by blast
  from 1 2 3 4 show ?thesis by blast
qed













lemma scenario_account_fields:
  "user_id (scenario_account u1 u2 b) = ''u1''"
  "is_active (scenario_account u1 u2 b)"
  "balance (scenario_account u1 u2 b) = b"
  "(scenario_account u1 u2 b)\<lparr>balance := c\<rparr> = scenario_account u1 u2 c"
  by (simp_all add: scenario_account_def)

lemma scenario_create_eq:
  "scenario_create u1 u2 =
     (Inr (scenario_account u1 u2 (Decimal_2dp 100000)),
      [scenario_account u1 u2 (Decimal_2dp 100000)])"
  using create_account_fresh
          [of u1 "new_BankAccountCreate ''u1'' (Some (Decimal_2dp 100000)) None" u2 "[]"]
  by (simp add: scenario_create_def scenario_account_def new_BankAccountCreate_def)

lemma scenario_debit_300_eq:
  "scenario_debit_300 u1 u2 =
     (Inr (True, ''Transaction successful'', Decimal_2dp 70000),
      [scenario_account u1 u2 (Decimal_2dp 70000)])"
proof -
  have "\<not> dec_lt (Decimal_2dp 100000) (Decimal_2dp 30000)"
    and "dec_sub (Decimal_2dp 100000) (Decimal_2dp 30000) = Decimal_2dp 70000"
    by (simp_all add: dec_eval)
  then show ?thesis
    using single_debit [of "scenario_account u1 u2 (Decimal_2dp 100000)" "''u1''"
                           "Decimal_2dp 30000"]
    by (simp add: scenario_debit_300_def scenario_create_eq scenario_account_fields)
qed

lemma scenario_debit_800_eq:
  "scenario_debit_800 u1 u2 =
     (Inr (False, ''Insufficient balance. Available: 700.00, Required: 800.00'',
           Decimal_2dp 70000),
      [scenario_account u1 u2 (Decimal_2dp 70000)])"
proof -
  have "dec_lt (Decimal_2dp 70000) (Decimal_2dp 80000)"
    by (simp add: dec_eval)
  then show ?thesis
    using single_debit_insufficient [of "scenario_account u1 u2 (Decimal_2dp 70000)" "''u1''"
                           "Decimal_2dp 80000"]
    by (simp add: scenario_debit_800_def scenario_debit_300_eq scenario_account_fields
          dec_str_700 dec_str_800)
qed

lemma scenario_credit_50_eq:
  "scenario_credit_50 u1 u2 =
     (Inr (True, ''Transaction successful'', Decimal_2dp 75000),
      [scenario_account u1 u2 (Decimal_2dp 75000)])"
proof -
  have "dec_add (Decimal_2dp 70000) (Decimal_2dp 5000) = Decimal_2dp 75000"
    by (simp add: dec_eval)
  then show ?thesis
    using single_credit [of "scenario_account u1 u2 (Decimal_2dp 70000)" "''u1''"
                           "Decimal_2dp 5000"]
    by (simp add: scenario_credit_50_def scenario_debit_800_eq scenario_account_fields)
qed

text \<open>
  C5. The scenario: after an account is created for user \<^verbatim>\<open>u1\<close> with initial balance
  1000.00, whatever identifiers are drawn, the debit of 300.00 returns
  \<^verbatim>\<open>(True, "Transaction successful", 700.00)\<close>; the debit of 800.00 that follows
  returns \<^verbatim>\<open>(False, "Insufficient balance. Available: 700.00, Required: 800.00", 700.00)\<close>
  and leaves the table as it was, with the balance 700.00; the credit of 50.00 that
  follows returns \<^verbatim>\<open>(True, "Transaction successful", 750.00)\<close>.
\<close>

theorem scenario_u1:
  "fst (scenario_create u1 u2) = Inr (scenario_account u1 u2 (Decimal_2dp 100000))
   \<and> fst (scenario_debit_300 u1 u2) =
       Inr (True, ''Transaction successful'', Decimal_2dp 70000)
   \<and> fst (scenario_debit_800 u1 u2) =
       Inr (False, ''Insufficient balance. Available: 700.00, Required: 800.00'',
            Decimal_2dp 70000)
   \<and> snd (scenario_debit_800 u1 u2) = snd (scenario_debit_300 u1 u2)
   \<and> fst (get_account_by_user_id (snd (scenario_debit_800 u1 u2)) ''u1'') =
       Inr (Some (scenario_account u1 u2 (Decimal_2dp 70000)))
   \<and> fst (scenario_credit_50 u1 u2) =
       Inr (True, ''Transaction successful'', Decimal_2dp 75000)
   \<and> dec_str (Decimal_2dp 70000) = ''700.00'' \<and> dec_str (Decimal_2dp 75000) = ''750.00''
   \<and> dec_str (Decimal_2dp 100000) = ''1000.00''"
  by (simp add: scenario_create_eq scenario_debit_300_eq scenario_debit_800_eq
        scenario_credit_50_eq single_get scenario_account_fields dec_str_700)
     (simp add: dec_str_eval dec_eval)

end
